theory Spec2Isabelle
  imports Main
begin

section \<open>JavaScript values used by the session manager\<close>

text \<open>
  The provider in \<^verbatim>\<open>client/src/context/AuthContext.jsx\<close> works on values that are either
  a string or \<^verbatim>\<open>null\<close>/\<^verbatim>\<open>undefined\<close>: the token, the environment value
  \<^verbatim>\<open>VITE_API_URL\<close>, the reason of an error payload. They are \<open>string option\<close> here, with
  \<open>None\<close> for \<^verbatim>\<open>null\<close> and \<^verbatim>\<open>undefined\<close>. The tests \<^verbatim>\<open>if (token)\<close>,
  \<^verbatim>\<open>if (_VITE_API)\<close> and \<^verbatim>\<open>x || 'default'\<close> are JavaScript truthiness: the empty
  string counts as absent.
\<close>

definition truthy :: "string option \<Rightarrow> bool" where
  "truthy v = (case v of None \<Rightarrow> False | Some s \<Rightarrow> s \<noteq> [])"

definition or_else :: "string option \<Rightarrow> string \<Rightarrow> string" where
  "or_else v d = (case v of None \<Rightarrow> d | Some s \<Rightarrow> if s \<noteq> [] then s else d)"

section \<open>The API base URL\<close>

text \<open>
  \<^verbatim>\<open>_VITE_API.replace(/\/+$/, '')\<close> removes the run of slashes that ends the string,
  \<^verbatim>\<open>trimmed.endsWith('/api')\<close> tests a suffix.
\<close>

definition strip_trailing_slashes :: "string \<Rightarrow> string" where
  "strip_trailing_slashes s = rev (dropWhile (\<lambda>c. c = CHR ''/'') (rev s))"

definition endsWith :: "string \<Rightarrow> string \<Rightarrow> bool" where
  "endsWith s suf = (length suf \<le> length s \<and> drop (length s - length suf) s = suf)"

text \<open>
  The first argument is \<^verbatim>\<open>import.meta.env.VITE_API_URL\<close>; the second is
  \<^verbatim>\<open>window.location.origin\<close>, \<open>None\<close> where there is no \<^verbatim>\<open>window\<close> or no
  \<^verbatim>\<open>window.location\<close>.
\<close>

definition same_origin_api :: "string option \<Rightarrow> string" where
  "same_origin_api origin = (case origin of Some ori \<Rightarrow> ori @ ''/api'' | None \<Rightarrow> ''/api'')"

definition API_URL :: "string option \<Rightarrow> string option \<Rightarrow> string" where
  "API_URL vite_api origin =
     (case vite_api of
        None \<Rightarrow> same_origin_api origin
      | Some v \<Rightarrow>
          if v \<noteq> [] then
            (let trimmed = strip_trailing_slashes v
             in if endsWith trimmed ''/api'' then trimmed else trimmed @ ''/api'')
          else same_origin_api origin)"

section \<open>Transport layer and remote outcomes\<close>

datatype http_method = GET | POST

record request =
  req_method :: http_method
  req_url :: string
  req_body :: "(string \<times> string) list"
  req_authorization :: "string option"

text \<open>
  \<open>'u\<close> is the user profile, opaque to the provider. A response body is
  \<^verbatim>\<open>response.data\<close> with its fields \<^verbatim>\<open>user\<close> and \<^verbatim>\<open>token\<close>, each possibly missing.
\<close>

record 'u payload =
  p_user :: "'u option"
  p_token :: "string option"

text \<open>
  A rejected axios call carries \<^verbatim>\<open>error.response?.data?.error\<close>: there may be no
  response (network error), a response without data, or data whose \<^verbatim>\<open>error\<close> field is a
  string or missing.
\<close>

datatype transport_error =
    NoResponse
  | ResponseWithoutData
  | ErrorPayload "string option"

text \<open>
  The outcome of one awaited request: resolved with \<^verbatim>\<open>response.data\<close> (\<open>None\<close> when
  it is \<^verbatim>\<open>null\<close> or \<^verbatim>\<open>undefined\<close>), or rejected. Data of any other kind is a
  payload: an object lacking a field, or the empty string axios gives for an empty
  body, reads \<^verbatim>\<open>undefined\<close> at that field without throwing, \<open>None\<close> in the payload.
\<close>

datatype 'u outcome =
    Resolved "'u payload option"
  | Rejected transport_error

text \<open>
  What a \<^verbatim>\<open>try\<close> block of the provider can throw: the rejection of the awaited call, or
  the \<^verbatim>\<open>TypeError\<close> of reading a property of a missing \<^verbatim>\<open>response.data\<close>.
\<close>

datatype js_error = TypeError | AxiosError transport_error

fun error_reason :: "js_error \<Rightarrow> string option" where
  "error_reason TypeError = None"
| "error_reason (AxiosError NoResponse) = None"
| "error_reason (AxiosError ResponseWithoutData) = None"
| "error_reason (AxiosError (ErrorPayload r)) = r"

section \<open>The provider's state\<close>

text \<open>
  \<open>user\<close>, \<open>loading\<close> and \<open>token\<close> are the three \<^verbatim>\<open>useState\<close> cells;
  \<open>authorization\<close> is \<^verbatim>\<open>axios.defaults.headers.common['Authorization']\<close>; \<open>stored\<close> is
  \<^verbatim>\<open>localStorage\<close> at the key \<^verbatim>\<open>'token'\<close>; \<open>sent\<close> lists the requests handed to
  axios, oldest first; \<open>console\<close> lists the labels written with \<^verbatim>\<open>console.error\<close>;
  \<open>pending_logouts\<close> counts the calls of \<^verbatim>\<open>logout()\<close> that were started without
  \<^verbatim>\<open>await\<close> and whose request is still in flight.
\<close>

record 'u world =
  user :: "'u option"
  loading :: bool
  token :: "string option"
  authorization :: "string option"
  stored :: "string option"
  sent :: "request list"
  console :: "string list"
  pending_logouts :: nat

definition setUser :: "'u option \<Rightarrow> 'u world \<Rightarrow> 'u world" where
  "setUser u w = w\<lparr>user := u\<rparr>"

definition setLoading :: "bool \<Rightarrow> 'u world \<Rightarrow> 'u world" where
  "setLoading b w = w\<lparr>loading := b\<rparr>"

definition setToken :: "string option \<Rightarrow> 'u world \<Rightarrow> 'u world" where
  "setToken t w = w\<lparr>token := t\<rparr>"

definition removeItem :: "'u world \<Rightarrow> 'u world" where
  "removeItem w = w\<lparr>stored := None\<rparr>"

definition console_error :: "string \<Rightarrow> 'u world \<Rightarrow> 'u world" where
  "console_error label w = w\<lparr>console := console w @ [label]\<rparr>"

definition axios_send :: "http_method \<Rightarrow> string \<Rightarrow> (string \<times> string) list \<Rightarrow> 'u world \<Rightarrow> 'u world" where
  "axios_send m u b w =
     w\<lparr>sent := sent w @
        [\<lparr>req_method = m, req_url = u, req_body = b, req_authorization = authorization w\<rparr>]\<rparr>"

text \<open>
  The effect with dependency \<^verbatim>\<open>[token]\<close> (lines 44 to 52): a truthy token is written to
  the header and to the store, any other token removes both.
\<close>

definition token_effect :: "'u world \<Rightarrow> 'u world" where
  "token_effect w =
     (case token w of
        None \<Rightarrow> w\<lparr>authorization := None, stored := None\<rparr>
      | Some t \<Rightarrow>
          if t \<noteq> [] then w\<lparr>authorization := Some (''Bearer '' @ t), stored := Some t\<rparr>
          else w\<lparr>authorization := None, stored := None\<rparr>)"

text \<open>
  React renders again after the state setters of an operation and runs the effect only
  when \<^verbatim>\<open>token\<close> differs from the token of the previous render.
\<close>

definition rerender :: "string option \<Rightarrow> 'u world \<Rightarrow> 'u world" where
  "rerender prev w = (if token w \<noteq> prev then token_effect w else w)"

section \<open>Operations\<close>

text \<open>
  An \<^verbatim>\<open>async\<close> function returns how its promise settles (\<open>Inl\<close> rejected, \<open>Inr\<close>
  fulfilled) together with the world at that moment, React having rendered. Each
  operation takes the outcome of the request it awaits.
\<close>

datatype 'u result = Success "'u option" | Failed string

text \<open>
  \<^verbatim>\<open>logout\<close> (lines 113 to 123) in two halves: up to its \<^verbatim>\<open>await\<close>, where the request
  leaves, and from the moment the request has settled, where \<^verbatim>\<open>catch\<close> and
  \<^verbatim>\<open>finally\<close> run. A caller that awaits \<^verbatim>\<open>logout()\<close> sees both.
\<close>

definition logout_start :: "string \<Rightarrow> 'u world \<Rightarrow> 'u world" where
  "logout_start api w = axios_send POST (api @ ''/auth/logout'') [] w"

definition logout_settle :: "'u outcome \<Rightarrow> 'u world \<Rightarrow> (js_error + unit) \<times> 'u world" where
  "logout_settle out w =
     (let w1 = (case out of
                  Resolved _ \<Rightarrow> w
                | Rejected e \<Rightarrow> console_error ''Logout error:'' w);
          w2 = removeItem (setToken None (setUser None w1))
      in (Inr (), rerender (token w) w2))"

definition logout :: "string \<Rightarrow> 'u outcome \<Rightarrow> 'u world \<Rightarrow> (js_error + unit) \<times> 'u world" where
  "logout api out w = logout_settle out (logout_start api w)"

text \<open>
  \<^verbatim>\<open>checkAuth\<close> (lines 59 to 74). Its \<^verbatim>\<open>catch\<close> calls \<^verbatim>\<open>logout()\<close> without
  \<^verbatim>\<open>await\<close>: the call runs up to its own \<^verbatim>\<open>await\<close> and hands back a promise that is
  dropped, \<^verbatim>\<open>finally\<close> runs, and \<^verbatim>\<open>checkAuth\<close> is complete while the logout request
  is still in flight.

  The \<^verbatim>\<open>token\<close> that \<^verbatim>\<open>checkAuth\<close> tests at line 61 is the constant of the render that
  created the function (line 41), not the cell: \<open>captured\<close> here. It is the session's
  token when the function is taken from the current context value, and an older token
  when a reference to the function was kept across renders.
\<close>

definition spawn_logout :: "string \<Rightarrow> 'u world \<Rightarrow> 'u world" where
  "spawn_logout api w = (logout_start api w)\<lparr>pending_logouts := Suc (pending_logouts w)\<rparr>"

definition checkAuth_catch :: "string \<Rightarrow> 'u world \<Rightarrow> (js_error + unit) \<times> 'u world" where
  "checkAuth_catch api w =
     (Inr (), setLoading False (spawn_logout api (console_error ''Auth check failed:'' w)))"

definition checkAuth :: "string \<Rightarrow> string option \<Rightarrow> 'u outcome \<Rightarrow> 'u world \<Rightarrow> (js_error + unit) \<times> 'u world" where
  "checkAuth api captured me w =
     (if \<not> truthy captured then (Inr (), setLoading False (setLoading False w))
      else
        (let w1 = axios_send GET (api @ ''/auth/me'') [] w
         in case me of
              Rejected e \<Rightarrow> checkAuth_catch api w1
            | Resolved None \<Rightarrow> checkAuth_catch api w1
            | Resolved (Some d) \<Rightarrow> (Inr (), setLoading False (setUser (p_user d) w1))))"

text \<open>
  The request of a pending logout settles with outcome \<open>lo\<close> and that logout runs to
  its end. Nothing happens when no logout is pending.
\<close>

definition settle :: "'u outcome \<Rightarrow> 'u world \<Rightarrow> 'u world" where
  "settle lo w =
     (if pending_logouts w = 0 then w
      else snd (logout_settle lo (w\<lparr>pending_logouts := pending_logouts w - 1\<rparr>)))"

definition login_catch :: "string \<Rightarrow> js_error \<Rightarrow> 'u world \<Rightarrow> (js_error + 'u result) \<times> 'u world" where
  "login_catch fallback error w = (Inr (Failed (or_else (error_reason error) fallback)), w)"

definition login :: "string \<Rightarrow> string \<Rightarrow> string \<Rightarrow> 'u outcome \<Rightarrow> 'u world \<Rightarrow> (js_error + 'u result) \<times> 'u world" where
  "login api email password out w =
     (let w1 = axios_send POST (api @ ''/auth/login'')
                 [(''email'', email), (''password'', password)] w
      in case out of
           Rejected e \<Rightarrow> login_catch ''Login failed'' (AxiosError e) w1
         | Resolved None \<Rightarrow> login_catch ''Login failed'' TypeError w1
         | Resolved (Some d) \<Rightarrow>
             (Inr (Success (p_user d)),
              rerender (token w) (setToken (p_token d) (setUser (p_user d) w1))))"

definition register :: "string \<Rightarrow> string \<Rightarrow> string \<Rightarrow> string \<Rightarrow> 'u outcome \<Rightarrow> 'u world \<Rightarrow> (js_error + 'u result) \<times> 'u world" where
  "register api username email password out w =
     (let w1 = axios_send POST (api @ ''/auth/register'')
                 [(''username'', username), (''email'', email), (''password'', password)] w
      in case out of
           Rejected e \<Rightarrow> login_catch ''Registration failed'' (AxiosError e) w1
         | Resolved None \<Rightarrow> login_catch ''Registration failed'' TypeError w1
         | Resolved (Some d) \<Rightarrow>
             (Inr (Success (p_user d)),
              rerender (token w) (setToken (p_token d) (setUser (p_user d) w1))))"

definition handleOAuthSuccess :: "string option \<Rightarrow> 'u option \<Rightarrow> 'u world \<Rightarrow> 'u world" where
  "handleOAuthSuccess tok userData w = rerender (token w) (setUser userData (setToken tok w))"

text \<open>
  Mounting the provider (lines 38 to 57): the three cells are initialised, \<open>token\<close> from
  the store; after the first render both effects run in order, the token effect and then
  \<^verbatim>\<open>checkAuth()\<close>. \<open>st\<close> is what the store holds and \<open>hdr\<close> the header axios carries
  before the provider mounts. The \<^verbatim>\<open>checkAuth\<close> of the mount is the one of the first
  render, whose token is \<open>st\<close>. The result is the world when \<^verbatim>\<open>checkAuth\<close> is complete.
\<close>

definition AuthProvider :: "string \<Rightarrow> string option \<Rightarrow> string option \<Rightarrow> 'u outcome \<Rightarrow> 'u world" where
  "AuthProvider api st hdr me =
     snd (checkAuth api st me
       (token_effect \<lparr>user = None, loading = True, token = st, authorization = hdr,
                      stored = st, sent = [], console = [], pending_logouts = 0\<rparr>))"

section \<open>State predicates\<close>

text \<open>
  The states the provider passes through between operations: the one left by mounting,
  every state an exposed operation leaves when started in such a state, and every state
  left when the request of a pending logout settles, whatever the remote answers.
  \<^verbatim>\<open>checkAuth\<close> is exposed in the context value, so it may be called through the
  reference of any render: with any captured token.
\<close>

inductive reachable :: "'u world \<Rightarrow> bool" where
  mounted: "reachable (AuthProvider api st hdr me)"
| after_login: "reachable w \<Longrightarrow> reachable (snd (login api email password out w))"
| after_register:
    "reachable w \<Longrightarrow> reachable (snd (register api username email password out w))"
| after_logout: "reachable w \<Longrightarrow> reachable (snd (logout api out w))"
| after_checkAuth: "reachable w \<Longrightarrow> reachable (snd (checkAuth api captured me w))"
| after_handleOAuthSuccess: "reachable w \<Longrightarrow> reachable (handleOAuthSuccess tok userData w)"
| after_settle: "reachable w \<Longrightarrow> reachable (settle lo w)"

text \<open>
  Header and store mirror the token: both carry a truthy token, both are absent for any
  other token.
\<close>

definition paired :: "'u world \<Rightarrow> bool" where
  "paired w =
     (case token w of
        None \<Rightarrow> authorization w = None \<and> stored w = None
      | Some t \<Rightarrow>
          if t \<noteq> [] then authorization w = Some (''Bearer '' @ t) \<and> stored w = Some t
          else authorization w = None \<and> stored w = None)"

text \<open>A user is present only together with a truthy token.\<close>

definition user_needs_token :: "'u world \<Rightarrow> bool" where
  "user_needs_token w = (user w \<noteq> None \<longrightarrow> truthy (token w))"

text \<open>
  A request on which the \<^verbatim>\<open>try\<close> block throws: it was rejected (credential refused,
  network error), or it resolved with \<^verbatim>\<open>response.data\<close> being \<^verbatim>\<open>null\<close> or
  \<^verbatim>\<open>undefined\<close>, on which the property read of the source throws. A response whose
  data only lacks a field is not among them.
\<close>

definition failed :: "'u outcome \<Rightarrow> bool" where
  "failed out = (case out of Resolved (Some d) \<Rightarrow> False | Resolved None \<Rightarrow> True | Rejected e \<Rightarrow> True)"

section \<open>Basic facts\<close>

lemmas cell_defs = setUser_def setLoading_def setToken_def removeItem_def console_error_def
  axios_send_def

lemmas op_defs = logout_def logout_start_def logout_settle_def spawn_logout_def
  checkAuth_def checkAuth_catch_def settle_def login_def register_def
  handleOAuthSuccess_def login_catch_def rerender_def token_effect_def

lemma rerender_cells:
  "user (rerender prev w) = user w" "loading (rerender prev w) = loading w"
  "token (rerender prev w) = token w" "sent (rerender prev w) = sent w"
  "console (rerender prev w) = console w"
  "pending_logouts (rerender prev w) = pending_logouts w"
  by (simp_all add: rerender_def token_effect_def split: option.splits)

lemma paired_token_effect: "paired (token_effect w)"
  by (simp add: paired_def token_effect_def split: option.splits)

text \<open>
  On a paired world the effect changes nothing, so it does not matter whether React
  runs it when \<^verbatim>\<open>null\<close> is replaced by \<^verbatim>\<open>undefined\<close>, both \<open>None\<close> here.
\<close>

lemma token_effect_paired: "paired w \<Longrightarrow> token_effect w = w"
  by (auto simp add: paired_def token_effect_def split: option.splits if_splits)

lemma paired_logout_settle: "paired w \<Longrightarrow> paired (snd (logout_settle out w))"
  by (auto simp add: op_defs paired_def cell_defs Let_def split: option.splits outcome.splits)

lemma paired_logout: "paired w \<Longrightarrow> paired (snd (logout api out w))"
  by (auto simp add: op_defs paired_def cell_defs Let_def split: option.splits outcome.splits)

lemma paired_login: "paired w \<Longrightarrow> paired (snd (login api email password out w))"
  by (auto simp add: op_defs paired_def cell_defs Let_def split: option.splits outcome.splits)

lemma paired_register: "paired w \<Longrightarrow> paired (snd (register api username email password out w))"
  by (auto simp add: op_defs paired_def cell_defs Let_def split: option.splits outcome.splits)

lemma paired_handleOAuthSuccess: "paired w \<Longrightarrow> paired (handleOAuthSuccess tok userData w)"
  by (auto simp add: op_defs paired_def cell_defs Let_def split: option.splits)

lemma paired_checkAuth: "paired w \<Longrightarrow> paired (snd (checkAuth api captured me w))"
  by (auto simp add: op_defs paired_def cell_defs Let_def truthy_def
      split: option.splits outcome.splits)

lemma paired_settle: "paired w \<Longrightarrow> paired (settle lo w)"
  by (auto simp add: op_defs paired_def cell_defs Let_def split: option.splits outcome.splits)

lemma paired_AuthProvider: "paired (AuthProvider api st hdr me)"
  unfolding AuthProvider_def by (rule paired_checkAuth) (rule paired_token_effect)

lemma reachable_paired: "reachable w \<Longrightarrow> paired w"
  by (induction rule: reachable.induct)
     (simp_all add: paired_AuthProvider paired_login paired_register paired_logout
        paired_checkAuth paired_handleOAuthSuccess paired_settle)

text \<open>Two concrete mounts, used as starting states below.\<close>

lemma anonymous_mount:
  "AuthProvider api None hdr me =
     \<lparr>user = None, loading = False, token = None, authorization = None, stored = None,
      sent = [], console = [], pending_logouts = 0\<rparr>"
  by (simp add: AuthProvider_def checkAuth_def token_effect_def truthy_def cell_defs)

lemma authenticated_mount:
  "AuthProvider ''/api'' (Some ''abc'') None
     (Resolved (Some \<lparr>p_user = Some (7::nat), p_token = None\<rparr>))
   = \<lparr>user = Some 7, loading = False, token = Some ''abc'',
      authorization = Some ''Bearer abc'', stored = Some ''abc'',
      sent = [\<lparr>req_method = GET, req_url = ''/api/auth/me'', req_body = [],
                req_authorization = Some ''Bearer abc''\<rparr>],
      console = [], pending_logouts = 0\<rparr>"
  by (simp add: AuthProvider_def checkAuth_def token_effect_def truthy_def cell_defs)

section \<open>Construction\<close>

text \<open>
  Claim C8. Mounting the provider over a store that holds no token ends with token and
  user empty, \<open>loading = False\<close>, no Authorization header (whatever header axios carried
  before), no request handed to axios and no logout pending.
\<close>

theorem mount_without_token:
  "AuthProvider api None hdr me =
     \<lparr>user = None, loading = False, token = None, authorization = None, stored = None,
      sent = [], console = [], pending_logouts = 0\<rparr>"
  by (simp add: AuthProvider_def checkAuth_def token_effect_def truthy_def cell_defs)

section \<open>Login\<close>

text \<open>
  Claim C1, as stated, at a concrete input: a login that resolves with the empty string
  as token returns a success result, yet the effect takes its \<^verbatim>\<open>else\<close> branch, so no
  header of the form \<open>''Bearer '' @ token\<close> is attached and nothing is stored.
\<close>

theorem login_empty_token_counterexample:
  "fst (login ''/api'' ''a@b.com'' ''pw''
         (Resolved (Some \<lparr>p_user = Some (2::nat), p_token = Some ''''\<rparr>))
         (AuthProvider ''/api'' None None (Resolved None)))
     = Inr (Success (Some 2)) \<and>
   \<not> (authorization (snd (login ''/api'' ''a@b.com'' ''pw''
         (Resolved (Some \<lparr>p_user = Some (2::nat), p_token = Some ''''\<rparr>))
         (AuthProvider ''/api'' None None (Resolved None))))
        = Some (''Bearer '' @ '''') \<and>
      stored (snd (login ''/api'' ''a@b.com'' ''pw''
         (Resolved (Some \<lparr>p_user = Some (2::nat), p_token = Some ''''\<rparr>))
         (AuthProvider ''/api'' None None (Resolved None))))
        = Some '''')"
  by (simp add: anonymous_mount login_def rerender_def token_effect_def cell_defs)

text \<open>
  Claim C1, amended. From a reachable state, a login whose request resolves with a body
  returns the success result carrying the body's user, and leaves the user and the token
  of the body in the session; when that token is a non-empty string it is attached as
  \<open>Bearer\<close> header and stored, otherwise the header is removed and the store erased.
\<close>

theorem login_success:
  assumes "reachable w"
    and "login api email password (Resolved (Some d)) w = (r, w')"
  shows "r = Inr (Success (p_user d)) \<and> user w' = p_user d \<and> token w' = p_token d \<and>
         (\<forall>t. p_token d = Some t \<and> t \<noteq> [] \<longrightarrow>
              authorization w' = Some (''Bearer '' @ t) \<and> stored w' = Some t) \<and>
         (\<not> truthy (p_token d) \<longrightarrow> authorization w' = None \<and> stored w' = None)"
proof -
  have p: "paired w" using assms(1) by (rule reachable_paired)
  have r: "r = Inr (Success (p_user d))" and u: "user w' = p_user d"
    and t: "token w' = p_token d"
    using assms(2) by (auto simp add: login_def rerender_cells cell_defs Let_def)
  have "paired (snd (login api email password (Resolved (Some d)) w))"
    using p by (rule paired_login)
  then have "paired w'" using assms(2) by simp
  with t have "(\<forall>t. p_token d = Some t \<and> t \<noteq> [] \<longrightarrow>
              authorization w' = Some (''Bearer '' @ t) \<and> stored w' = Some t) \<and>
         (\<not> truthy (p_token d) \<longrightarrow> authorization w' = None \<and> stored w' = None)"
    by (auto simp add: paired_def truthy_def split: option.splits if_splits)
  with r u t show ?thesis by simp
qed

theorem login_success_witness:
  "reachable (AuthProvider ''/api'' None None (Resolved None) :: nat world) \<and>
   login ''/api'' ''a@b.com'' ''pw''
     (Resolved (Some \<lparr>p_user = Some (2::nat), p_token = Some ''xyz''\<rparr>))
     (AuthProvider ''/api'' None None (Resolved None))
   = (Inr (Success (Some 2)),
      \<lparr>user = Some 2, loading = False, token = Some ''xyz'',
       authorization = Some ''Bearer xyz'', stored = Some ''xyz'',
       sent = [\<lparr>req_method = POST, req_url = ''/api/auth/login'',
                 req_body = [(''email'', ''a@b.com''), (''password'', ''pw'')],
                 req_authorization = None\<rparr>],
       console = [], pending_logouts = 0\<rparr>)"
proof -
  have h1: "reachable (AuthProvider ''/api'' None None (Resolved None) :: nat world)"
    by (rule mounted)
  have h2: "login ''/api'' ''a@b.com'' ''pw''
     (Resolved (Some \<lparr>p_user = Some (2::nat), p_token = Some ''xyz''\<rparr>))
     (AuthProvider ''/api'' None None (Resolved None))
   = (Inr (Success (Some 2)),
      \<lparr>user = Some 2, loading = False, token = Some ''xyz'',
       authorization = Some ''Bearer xyz'', stored = Some ''xyz'',
       sent = [\<lparr>req_method = POST, req_url = ''/api/auth/login'',
                 req_body = [(''email'', ''a@b.com''), (''password'', ''pw'')],
                 req_authorization = None\<rparr>],
       console = [], pending_logouts = 0\<rparr>)"
    by (simp add: anonymous_mount login_def rerender_def token_effect_def cell_defs)
  from login_success [OF h1 h2] h1 h2 show ?thesis by simp
qed

text \<open>
  Claim C2. A login whose request fails leaves user, loading, token, header and store as
  they were, fulfils its promise, and returns a failure result whose reason is not empty:
  the reason of the error payload when there is a non-empty one, \<open>''Login failed''\<close>
  otherwise.
\<close>

theorem login_failure:
  assumes "failed out"
    and "login api email password out w = (r, w')"
  shows "user w' = user w \<and> loading w' = loading w \<and> token w' = token w \<and>
         authorization w' = authorization w \<and> stored w' = stored w \<and>
         (\<exists>m. r = Inr (Failed m) \<and> m \<noteq> [] \<and>
              m = (case out of
                     Rejected (ErrorPayload (Some s)) \<Rightarrow> if s \<noteq> [] then s else ''Login failed''
                   | _ \<Rightarrow> ''Login failed''))"
  using assms
  by (auto simp add: failed_def login_def login_catch_def or_else_def cell_defs
      split: outcome.splits option.splits transport_error.splits if_splits)

theorem login_failure_witness:
  "failed (Rejected (ErrorPayload (Some ''Invalid credentials'')) :: nat outcome) \<and>
   login ''/api'' ''a@b.com'' ''bad'' (Rejected (ErrorPayload (Some ''Invalid credentials'')))
     \<lparr>user = None :: nat option, loading = False, token = None, authorization = None,
      stored = None, sent = [], console = [], pending_logouts = 0\<rparr>
   = (Inr (Failed ''Invalid credentials''),
      \<lparr>user = None, loading = False, token = None, authorization = None, stored = None,
       sent = [\<lparr>req_method = POST, req_url = ''/api/auth/login'',
                 req_body = [(''email'', ''a@b.com''), (''password'', ''bad'')],
                 req_authorization = None\<rparr>],
       console = [], pending_logouts = 0\<rparr>)"
proof -
  have h1: "failed (Rejected (ErrorPayload (Some ''Invalid credentials'')) :: nat outcome)"
    by (simp add: failed_def)
  have h2: "login ''/api'' ''a@b.com'' ''bad'' (Rejected (ErrorPayload (Some ''Invalid credentials'')))
     \<lparr>user = None :: nat option, loading = False, token = None, authorization = None,
      stored = None, sent = [], console = [], pending_logouts = 0\<rparr>
   = (Inr (Failed ''Invalid credentials''),
      \<lparr>user = None, loading = False, token = None, authorization = None, stored = None,
       sent = [\<lparr>req_method = POST, req_url = ''/api/auth/login'',
                 req_body = [(''email'', ''a@b.com''), (''password'', ''bad'')],
                 req_authorization = None\<rparr>],
       console = [], pending_logouts = 0\<rparr>)"
    by (simp add: login_def login_catch_def or_else_def cell_defs)
  from login_failure [OF h1 h2] h1 h2 show ?thesis by simp
qed

text \<open>
  Claim C9. For every outcome of its request, \<^verbatim>\<open>register\<close> leaves the same session as
  \<^verbatim>\<open>login\<close> and differs in the request it sends. On success both return the same
  result; on failure both leave the session as it was and return a failure result with a
  non-empty reason, the reason of the error payload when there is a non-empty one and
  otherwise the generic text of the operation.
\<close>

theorem register_like_login:
  assumes "login api email password out w = (rl, wl)"
    and "register api username email password out w = (rr, wr)"
  shows "user wr = user wl \<and> loading wr = loading wl \<and> token wr = token wl \<and>
         authorization wr = authorization wl \<and> stored wr = stored wl \<and>
         console wr = console wl \<and> pending_logouts wr = pending_logouts wl \<and>
         sent wl = sent w @ [\<lparr>req_method = POST, req_url = api @ ''/auth/login'',
            req_body = [(''email'', email), (''password'', password)],
            req_authorization = authorization w\<rparr>] \<and>
         sent wr = sent w @ [\<lparr>req_method = POST, req_url = api @ ''/auth/register'',
            req_body = [(''username'', username), (''email'', email), (''password'', password)],
            req_authorization = authorization w\<rparr>] \<and>
         (\<not> failed out \<longrightarrow> rr = rl \<and> (\<exists>u. rl = Inr (Success u))) \<and>
         (failed out \<longrightarrow>
            user wr = user w \<and> loading wr = loading w \<and> token wr = token w \<and>
            authorization wr = authorization w \<and> stored wr = stored w \<and>
            (\<exists>ml mr. rl = Inr (Failed ml) \<and> rr = Inr (Failed mr) \<and> ml \<noteq> [] \<and> mr \<noteq> [] \<and>
               (\<forall>s. out = Rejected (ErrorPayload (Some s)) \<and> s \<noteq> [] \<longrightarrow> ml = s \<and> mr = s) \<and>
               ((\<forall>s. out = Rejected (ErrorPayload (Some s)) \<longrightarrow> s = []) \<longrightarrow>
                  ml = ''Login failed'' \<and> mr = ''Registration failed'')))"
proof (cases out)
  case (Resolved p)
  then show ?thesis using assms
    by (cases p)
       (auto simp add: failed_def login_def register_def login_catch_def or_else_def
          rerender_def token_effect_def cell_defs Let_def split: option.splits)
next
  case (Rejected e)
  then show ?thesis using assms
    by (cases e)
       (auto simp add: failed_def login_def register_def login_catch_def or_else_def
          cell_defs Let_def split: option.splits)
qed

theorem register_like_login_witness:
  "login ''/api'' ''a@b.com'' ''pw'' (Rejected NoResponse)
     \<lparr>user = None :: nat option, loading = False, token = None, authorization = None,
      stored = None, sent = [], console = [], pending_logouts = 0\<rparr>
   = (Inr (Failed ''Login failed''),
      \<lparr>user = None, loading = False, token = None, authorization = None, stored = None,
       sent = [\<lparr>req_method = POST, req_url = ''/api/auth/login'',
                 req_body = [(''email'', ''a@b.com''), (''password'', ''pw'')],
                 req_authorization = None\<rparr>],
       console = [], pending_logouts = 0\<rparr>) \<and>
   register ''/api'' ''ann'' ''a@b.com'' ''pw'' (Rejected NoResponse)
     \<lparr>user = None :: nat option, loading = False, token = None, authorization = None,
      stored = None, sent = [], console = [], pending_logouts = 0\<rparr>
   = (Inr (Failed ''Registration failed''),
      \<lparr>user = None, loading = False, token = None, authorization = None, stored = None,
       sent = [\<lparr>req_method = POST, req_url = ''/api/auth/register'',
                 req_body = [(''username'', ''ann''), (''email'', ''a@b.com''),
                             (''password'', ''pw'')],
                 req_authorization = None\<rparr>],
       console = [], pending_logouts = 0\<rparr>) \<and>
   failed (Rejected NoResponse :: nat outcome)"
proof -
  have h1: "login ''/api'' ''a@b.com'' ''pw'' (Rejected NoResponse)
     \<lparr>user = None :: nat option, loading = False, token = None, authorization = None,
      stored = None, sent = [], console = [], pending_logouts = 0\<rparr>
   = (Inr (Failed ''Login failed''),
      \<lparr>user = None, loading = False, token = None, authorization = None, stored = None,
       sent = [\<lparr>req_method = POST, req_url = ''/api/auth/login'',
                 req_body = [(''email'', ''a@b.com''), (''password'', ''pw'')],
                 req_authorization = None\<rparr>],
       console = [], pending_logouts = 0\<rparr>)"
    by (simp add: login_def login_catch_def or_else_def cell_defs)
  have h2: "register ''/api'' ''ann'' ''a@b.com'' ''pw'' (Rejected NoResponse)
     \<lparr>user = None :: nat option, loading = False, token = None, authorization = None,
      stored = None, sent = [], console = [], pending_logouts = 0\<rparr>
   = (Inr (Failed ''Registration failed''),
      \<lparr>user = None, loading = False, token = None, authorization = None, stored = None,
       sent = [\<lparr>req_method = POST, req_url = ''/api/auth/register'',
                 req_body = [(''username'', ''ann''), (''email'', ''a@b.com''),
                             (''password'', ''pw'')],
                 req_authorization = None\<rparr>],
       console = [], pending_logouts = 0\<rparr>)"
    by (simp add: register_def login_catch_def or_else_def cell_defs)
  from register_like_login [OF h1 h2] h1 h2 show ?thesis by (simp add: failed_def)
qed

section \<open>Logout\<close>

text \<open>
  Claim C3. From every reachable state, the anonymous one included, and whether the
  revoke request resolves or is rejected, \<^verbatim>\<open>logout\<close> fulfils its promise and leaves the
  token empty, the user empty, no Authorization header and nothing in the store.
\<close>

theorem logout_clears:
  assumes "reachable w"
    and "logout api out w = (r, w')"
  shows "r = Inr () \<and> token w' = None \<and> user w' = None \<and>
         authorization w' = None \<and> stored w' = None"
proof -
  have "paired w" using assms(1) by (rule reachable_paired)
  then show ?thesis using assms(2)
    by (auto simp add: op_defs paired_def cell_defs Let_def
        split: option.splits outcome.splits if_splits)
qed

theorem logout_clears_witness:
  "reachable (AuthProvider ''/api'' (Some ''abc'') None
               (Resolved (Some \<lparr>p_user = Some (7::nat), p_token = None\<rparr>))) \<and>
   logout ''/api'' (Rejected NoResponse)
     (AuthProvider ''/api'' (Some ''abc'') None
        (Resolved (Some \<lparr>p_user = Some (7::nat), p_token = None\<rparr>)))
   = (Inr (),
      \<lparr>user = None, loading = False, token = None, authorization = None, stored = None,
       sent = [\<lparr>req_method = GET, req_url = ''/api/auth/me'', req_body = [],
                 req_authorization = Some ''Bearer abc''\<rparr>,
               \<lparr>req_method = POST, req_url = ''/api/auth/logout'', req_body = [],
                 req_authorization = Some ''Bearer abc''\<rparr>],
       console = [''Logout error:''], pending_logouts = 0\<rparr>)"
proof -
  have h1: "reachable (AuthProvider ''/api'' (Some ''abc'') None
               (Resolved (Some \<lparr>p_user = Some (7::nat), p_token = None\<rparr>)))"
    by (rule mounted)
  have h2: "logout ''/api'' (Rejected NoResponse)
     (AuthProvider ''/api'' (Some ''abc'') None
        (Resolved (Some \<lparr>p_user = Some (7::nat), p_token = None\<rparr>)))
   = (Inr (),
      \<lparr>user = None, loading = False, token = None, authorization = None, stored = None,
       sent = [\<lparr>req_method = GET, req_url = ''/api/auth/me'', req_body = [],
                 req_authorization = Some ''Bearer abc''\<rparr>,
               \<lparr>req_method = POST, req_url = ''/api/auth/logout'', req_body = [],
                 req_authorization = Some ''Bearer abc''\<rparr>],
       console = [''Logout error:''], pending_logouts = 0\<rparr>)"
    by (simp add: authenticated_mount logout_def logout_start_def logout_settle_def
        rerender_def token_effect_def cell_defs)
  from logout_clears [OF h1 h2] h1 h2 show ?thesis by simp
qed

text \<open>
  Claim C4. From any state and whatever the two revoke requests answer, a second
  \<^verbatim>\<open>logout\<close> leaves user, token, header, store and loading as the first one left them.
\<close>

theorem logout_idempotent:
  "user (snd (logout api out2 (snd (logout api out1 w)))) = user (snd (logout api out1 w)) \<and>
   token (snd (logout api out2 (snd (logout api out1 w)))) = token (snd (logout api out1 w)) \<and>
   authorization (snd (logout api out2 (snd (logout api out1 w))))
     = authorization (snd (logout api out1 w)) \<and>
   stored (snd (logout api out2 (snd (logout api out1 w)))) = stored (snd (logout api out1 w)) \<and>
   loading (snd (logout api out2 (snd (logout api out1 w)))) = loading (snd (logout api out1 w))"
  by (simp add: op_defs cell_defs Let_def split: option.splits outcome.splits)

section \<open>Restoring the session\<close>

text \<open>
  Claim C5, as stated, at two concrete inputs, both from the state of a mount over the
  stored token \<open>abc\<close>. First, the identity request is rejected: when \<^verbatim>\<open>checkAuth\<close> is
  complete \<open>loading\<close> is false, but the token, the header and the stored token are still
  those of the rejected session, since the logout that clears them has only sent its
  request. Second, the identity request resolves with a malformed body, one without a
  user: no logout is started at all, and the session keeps token, header and stored token.
\<close>

theorem checkAuth_pending_counterexample:
  "checkAuth ''/api'' (Some ''abc'') (Rejected (ErrorPayload (Some ''Invalid token'')))
     \<lparr>user = None :: nat option, loading = True, token = Some ''abc'',
      authorization = Some ''Bearer abc'', stored = Some ''abc'', sent = [], console = [],
      pending_logouts = 0\<rparr>
   = (Inr (),
      \<lparr>user = None, loading = False, token = Some ''abc'',
       authorization = Some ''Bearer abc'', stored = Some ''abc'',
       sent = [\<lparr>req_method = GET, req_url = ''/api/auth/me'', req_body = [],
                 req_authorization = Some ''Bearer abc''\<rparr>,
               \<lparr>req_method = POST, req_url = ''/api/auth/logout'', req_body = [],
                 req_authorization = Some ''Bearer abc''\<rparr>],
       console = [''Auth check failed:''], pending_logouts = 1\<rparr>) \<and>
   \<not> (token (snd (checkAuth ''/api'' (Some ''abc'')
          (Rejected (ErrorPayload (Some ''Invalid token'')))
     \<lparr>user = None :: nat option, loading = True, token = Some ''abc'',
      authorization = Some ''Bearer abc'', stored = Some ''abc'', sent = [], console = [],
      pending_logouts = 0\<rparr>))
      = None) \<and>
   settle (Resolved None)
     (snd (checkAuth ''/api'' (Some ''abc'')
        (Resolved (Some \<lparr>p_user = None, p_token = None\<rparr>))
        \<lparr>user = None :: nat option, loading = True, token = Some ''abc'',
         authorization = Some ''Bearer abc'', stored = Some ''abc'', sent = [], console = [],
         pending_logouts = 0\<rparr>))
   = \<lparr>user = None, loading = False, token = Some ''abc'',
      authorization = Some ''Bearer abc'', stored = Some ''abc'',
      sent = [\<lparr>req_method = GET, req_url = ''/api/auth/me'', req_body = [],
                req_authorization = Some ''Bearer abc''\<rparr>],
      console = [], pending_logouts = 0\<rparr>"
  by (simp add: checkAuth_def checkAuth_catch_def spawn_logout_def logout_start_def
      settle_def truthy_def cell_defs)

text \<open>
  Claim C5, amended. \<^verbatim>\<open>checkAuth\<close> always fulfils its promise and completes with
  \<open>loading\<close> false and with token, header and stored token as they were. When it sent
  the identity request and the request was rejected or resolved with data that is
  \<^verbatim>\<open>null\<close> or \<^verbatim>\<open>undefined\<close>, the user is as it was too and one more logout is pending;
  once the request of a pending logout has settled, resolved or rejected, the token is
  empty, the user is empty, the store is erased and \<open>loading\<close> is false, and no header is
  attached when the session held a token or was in a reachable state. When the request
  resolved with data, the user is the one of the data, possibly none, and no logout is
  started.
\<close>

theorem checkAuth_failure:
  assumes "checkAuth api captured me w = (r, w1)"
  shows "r = Inr () \<and> loading w1 = False \<and> token w1 = token w \<and>
         authorization w1 = authorization w \<and> stored w1 = stored w \<and>
         (truthy captured \<and> failed me \<longrightarrow>
            user w1 = user w \<and> pending_logouts w1 = Suc (pending_logouts w) \<and>
            token (settle lo w1) = None \<and> user (settle lo w1) = None \<and>
            stored (settle lo w1) = None \<and> loading (settle lo w1) = False \<and>
            (truthy (token w) \<or> reachable w \<longrightarrow> authorization (settle lo w1) = None)) \<and>
         (\<forall>d. truthy captured \<and> me = Resolved (Some d) \<longrightarrow>
            user w1 = p_user d \<and> pending_logouts w1 = pending_logouts w)"
proof -
  have unchanged: "r = Inr () \<and> loading w1 = False \<and> token w1 = token w \<and>
      authorization w1 = authorization w \<and> stored w1 = stored w"
    using assms
    by (auto simp add: checkAuth_def checkAuth_catch_def spawn_logout_def logout_start_def
        cell_defs Let_def split: option.splits outcome.splits if_splits)
  have resolved: "user w1 = p_user d \<and> pending_logouts w1 = pending_logouts w"
    if "truthy captured" "me = Resolved (Some d)" for d
    using assms that by (auto simp add: checkAuth_def cell_defs Let_def)
  have started: "user w1 = user w \<and> pending_logouts w1 = Suc (pending_logouts w)"
    if "truthy captured" "failed me"
    using assms that
    by (auto simp add: checkAuth_def checkAuth_catch_def spawn_logout_def logout_start_def
        failed_def cell_defs Let_def split: option.splits outcome.splits)
  have cleared: "token (settle lo w1) = None \<and> user (settle lo w1) = None \<and>
      stored (settle lo w1) = None \<and> loading (settle lo w1) = False"
    if "truthy captured" "failed me"
    using started [OF that] unchanged
    by (auto simp add: settle_def logout_settle_def rerender_def token_effect_def cell_defs
        Let_def split: outcome.splits option.splits)
  have detached: "authorization (settle lo w1) = None"
    if "truthy captured" "failed me" "truthy (token w) \<or> reachable w"
  proof -
    from that(3) have "truthy (token w) \<or> paired w"
      using reachable_paired by blast
    then have "truthy (token w1) \<or> (token w1 = None \<and> authorization w1 = None) \<or>
        (token w1 = Some [] \<and> authorization w1 = None)"
      using unchanged
      by (auto simp add: paired_def truthy_def split: option.splits if_splits)
    then show ?thesis
      using started [OF that(1,2)]
      by (auto simp add: settle_def logout_settle_def rerender_def token_effect_def
          truthy_def cell_defs Let_def split: option.splits outcome.splits)
  qed
  from unchanged resolved started cleared detached show ?thesis by blast
qed

theorem checkAuth_failure_witness:
  "checkAuth ''/api'' (Some ''abc'') (Rejected (ErrorPayload (Some ''Invalid token'')))
     \<lparr>user = None :: nat option, loading = True, token = Some ''abc'',
      authorization = Some ''Bearer abc'', stored = Some ''abc'', sent = [], console = [],
      pending_logouts = 0\<rparr>
   = (Inr (),
      \<lparr>user = None, loading = False, token = Some ''abc'',
       authorization = Some ''Bearer abc'', stored = Some ''abc'',
       sent = [\<lparr>req_method = GET, req_url = ''/api/auth/me'', req_body = [],
                 req_authorization = Some ''Bearer abc''\<rparr>,
               \<lparr>req_method = POST, req_url = ''/api/auth/logout'', req_body = [],
                 req_authorization = Some ''Bearer abc''\<rparr>],
       console = [''Auth check failed:''], pending_logouts = 1\<rparr>) \<and>
   truthy (Some ''abc'') \<and>
   failed (Rejected (ErrorPayload (Some ''Invalid token'')) :: nat outcome) \<and>
   settle (Resolved None)
     \<lparr>user = None :: nat option, loading = False, token = Some ''abc'',
       authorization = Some ''Bearer abc'', stored = Some ''abc'',
       sent = [\<lparr>req_method = GET, req_url = ''/api/auth/me'', req_body = [],
                 req_authorization = Some ''Bearer abc''\<rparr>,
               \<lparr>req_method = POST, req_url = ''/api/auth/logout'', req_body = [],
                 req_authorization = Some ''Bearer abc''\<rparr>],
       console = [''Auth check failed:''], pending_logouts = 1\<rparr>
   = \<lparr>user = None, loading = False, token = None, authorization = None, stored = None,
       sent = [\<lparr>req_method = GET, req_url = ''/api/auth/me'', req_body = [],
                 req_authorization = Some ''Bearer abc''\<rparr>,
               \<lparr>req_method = POST, req_url = ''/api/auth/logout'', req_body = [],
                 req_authorization = Some ''Bearer abc''\<rparr>],
       console = [''Auth check failed:''], pending_logouts = 0\<rparr>"
proof -
  have h: "checkAuth ''/api'' (Some ''abc'') (Rejected (ErrorPayload (Some ''Invalid token'')))
     \<lparr>user = None :: nat option, loading = True, token = Some ''abc'',
      authorization = Some ''Bearer abc'', stored = Some ''abc'', sent = [], console = [],
      pending_logouts = 0\<rparr>
   = (Inr (),
      \<lparr>user = None, loading = False, token = Some ''abc'',
       authorization = Some ''Bearer abc'', stored = Some ''abc'',
       sent = [\<lparr>req_method = GET, req_url = ''/api/auth/me'', req_body = [],
                 req_authorization = Some ''Bearer abc''\<rparr>,
               \<lparr>req_method = POST, req_url = ''/api/auth/logout'', req_body = [],
                 req_authorization = Some ''Bearer abc''\<rparr>],
       console = [''Auth check failed:''], pending_logouts = 1\<rparr>)"
    by (simp add: checkAuth_def checkAuth_catch_def spawn_logout_def logout_start_def
        truthy_def cell_defs)
  from checkAuth_failure [OF h, of "Resolved None"] h show ?thesis
    by (simp add: truthy_def failed_def settle_def logout_settle_def rerender_def
        token_effect_def cell_defs)
qed

section \<open>Invariants\<close>

text \<open>
  Claim C6, as stated, at two concrete inputs. In the anonymous state left by a mount
  the invariant holds, and \<^verbatim>\<open>handleOAuthSuccess('', profile)\<close> leaves a user together
  with an empty token. And after a mount over the stored token \<open>abc\<close> and a logout the
  invariant holds, and the \<^verbatim>\<open>checkAuth\<close> of the authenticated render, which captured
  \<open>abc\<close>, still sends its request and on a resolved answer sets a user while the token is
  empty.
\<close>

theorem user_without_token_counterexample:
  "user_needs_token (AuthProvider ''/api'' None None (Resolved None) :: nat world) \<and>
   user (handleOAuthSuccess (Some '''') (Some (2::nat))
          (AuthProvider ''/api'' None None (Resolved None))) = Some 2 \<and>
   token (handleOAuthSuccess (Some '''') (Some (2::nat))
          (AuthProvider ''/api'' None None (Resolved None))) = Some '''' \<and>
   \<not> user_needs_token
       (handleOAuthSuccess (Some '''') (Some (2::nat))
          (AuthProvider ''/api'' None None (Resolved None))) \<and>
   user_needs_token
     (snd (logout ''/api'' (Resolved None)
        (AuthProvider ''/api'' (Some ''abc'') None
           (Resolved (Some \<lparr>p_user = Some (7::nat), p_token = None\<rparr>))))) \<and>
   user (snd (checkAuth ''/api'' (Some ''abc'')
        (Resolved (Some \<lparr>p_user = Some (7::nat), p_token = None\<rparr>))
        (snd (logout ''/api'' (Resolved None)
           (AuthProvider ''/api'' (Some ''abc'') None
              (Resolved (Some \<lparr>p_user = Some (7::nat), p_token = None\<rparr>))))))) = Some 7 \<and>
   token (snd (checkAuth ''/api'' (Some ''abc'')
        (Resolved (Some \<lparr>p_user = Some (7::nat), p_token = None\<rparr>))
        (snd (logout ''/api'' (Resolved None)
           (AuthProvider ''/api'' (Some ''abc'') None
              (Resolved (Some \<lparr>p_user = Some (7::nat), p_token = None\<rparr>))))))) = None \<and>
   \<not> user_needs_token
     (snd (checkAuth ''/api'' (Some ''abc'')
        (Resolved (Some \<lparr>p_user = Some (7::nat), p_token = None\<rparr>))
        (snd (logout ''/api'' (Resolved None)
           (AuthProvider ''/api'' (Some ''abc'') None
              (Resolved (Some \<lparr>p_user = Some (7::nat), p_token = None\<rparr>)))))))"
  by (simp add: anonymous_mount authenticated_mount user_needs_token_def truthy_def
      handleOAuthSuccess_def checkAuth_def logout_def logout_start_def logout_settle_def
      rerender_def token_effect_def cell_defs)

text \<open>
  Claim C6, amended. A user is present only together with a non-empty token: this is
  preserved by \<^verbatim>\<open>logout\<close> and by the end of a pending logout without condition, by
  \<^verbatim>\<open>checkAuth\<close> when the token it captured is empty or the session's token is non-empty,
  as it is for the \<^verbatim>\<open>checkAuth\<close> of the current render, by \<^verbatim>\<open>login\<close> and
  \<^verbatim>\<open>register\<close> when a response that carries a body carries a non-empty token, and by
  \<^verbatim>\<open>handleOAuthSuccess\<close> when the token handed in is non-empty. A token without a user
  is allowed.
\<close>

theorem user_needs_token_preserved:
  assumes "user_needs_token w"
  shows "user_needs_token (snd (logout api rv w)) \<and>
         user_needs_token (settle lo w) \<and>
         ((truthy captured \<longrightarrow> truthy (token w)) \<longrightarrow>
            user_needs_token (snd (checkAuth api captured me w))) \<and>
         user_needs_token (snd (checkAuth api (token w) me w)) \<and>
         ((\<forall>d. out = Resolved (Some d) \<longrightarrow> truthy (p_token d)) \<longrightarrow>
            user_needs_token (snd (login api email password out w)) \<and>
            user_needs_token (snd (register api username email password out w))) \<and>
         (truthy tok \<longrightarrow> user_needs_token (handleOAuthSuccess tok userData w))"
proof -
  have 1: "user_needs_token (snd (logout api rv w))"
    by (simp add: user_needs_token_def logout_def logout_settle_def rerender_cells cell_defs
        Let_def)
  have 2: "user_needs_token (snd (checkAuth api c me w))" if "truthy c \<longrightarrow> truthy (token w)"
    for c
    using assms that
    by (auto simp add: user_needs_token_def checkAuth_def checkAuth_catch_def spawn_logout_def
        logout_start_def cell_defs Let_def split: outcome.splits option.splits)
  have 3: "user_needs_token (settle lo w)"
    using assms
    by (simp add: user_needs_token_def settle_def logout_settle_def rerender_cells cell_defs
        Let_def)
  have 4: "user_needs_token (snd (login api email password out w))"
    and 5: "user_needs_token (snd (register api username email password out w))"
    if "\<forall>d. out = Resolved (Some d) \<longrightarrow> truthy (p_token d)"
    using assms that
    by (auto simp add: user_needs_token_def login_def register_def login_catch_def
        rerender_cells cell_defs Let_def split: outcome.splits option.splits)
  have 6: "user_needs_token (handleOAuthSuccess tok userData w)" if "truthy tok"
    using that
    by (simp add: user_needs_token_def handleOAuthSuccess_def rerender_cells cell_defs)
  from 1 2 [of captured] 2 [of "token w"] 3 4 5 6 show ?thesis by blast
qed

theorem user_needs_token_preserved_witness:
  "user_needs_token (AuthProvider ''/api'' (Some ''abc'') None
      (Resolved (Some \<lparr>p_user = Some (7::nat), p_token = None\<rparr>))) \<and>
   truthy (token (AuthProvider ''/api'' (Some ''abc'') None
      (Resolved (Some \<lparr>p_user = Some (7::nat), p_token = None\<rparr>)))) \<and>
   truthy (p_token \<lparr>p_user = Some (2::nat), p_token = Some ''xyz''\<rparr>) \<and>
   truthy (Some ''tok'') \<and>
   user_needs_token (snd (login ''/api'' ''a@b.com'' ''pw''
      (Resolved (Some \<lparr>p_user = Some (2::nat), p_token = Some ''xyz''\<rparr>))
      (AuthProvider ''/api'' (Some ''abc'') None
         (Resolved (Some \<lparr>p_user = Some (7::nat), p_token = None\<rparr>))))) \<and>
   user_needs_token (snd (register ''/api'' ''ann'' ''a@b.com'' ''pw''
      (Resolved (Some \<lparr>p_user = Some (2::nat), p_token = Some ''xyz''\<rparr>))
      (AuthProvider ''/api'' (Some ''abc'') None
         (Resolved (Some \<lparr>p_user = Some (7::nat), p_token = None\<rparr>))))) \<and>
   user_needs_token (handleOAuthSuccess (Some ''tok'') (Some (3::nat))
      (AuthProvider ''/api'' (Some ''abc'') None
         (Resolved (Some \<lparr>p_user = Some (7::nat), p_token = None\<rparr>)))) \<and>
   user_needs_token (snd (logout ''/api'' (Resolved None)
      (AuthProvider ''/api'' (Some ''abc'') None
         (Resolved (Some \<lparr>p_user = Some (7::nat), p_token = None\<rparr>))))) \<and>
   user_needs_token (snd (checkAuth ''/api'' (Some ''abc'')
      (Resolved (Some \<lparr>p_user = Some (9::nat), p_token = None\<rparr>))
      (AuthProvider ''/api'' (Some ''abc'') None
         (Resolved (Some \<lparr>p_user = Some (7::nat), p_token = None\<rparr>)))))"
proof -
  have h: "user_needs_token (AuthProvider ''/api'' (Some ''abc'') None
      (Resolved (Some \<lparr>p_user = Some (7::nat), p_token = None\<rparr>)))"
    by (simp add: authenticated_mount user_needs_token_def truthy_def)
  have t0: "truthy (token (AuthProvider ''/api'' (Some ''abc'') None
      (Resolved (Some \<lparr>p_user = Some (7::nat), p_token = None\<rparr>))))"
    by (simp add: authenticated_mount truthy_def)
  have t1: "truthy (p_token \<lparr>p_user = Some (2::nat), p_token = Some ''xyz''\<rparr>)"
    and t2: "truthy (Some ''tok'')"
    by (simp_all add: truthy_def)
  from user_needs_token_preserved [OF h,
      where api = "''/api''" and rv = "Resolved None"
        and captured = "Some ''abc''"
        and me = "Resolved (Some \<lparr>p_user = Some (9::nat), p_token = None\<rparr>)"
        and out = "Resolved (Some \<lparr>p_user = Some (2::nat), p_token = Some ''xyz''\<rparr>)"
        and email = "''a@b.com''" and password = "''pw''" and username = "''ann''"
        and tok = "Some ''tok''" and userData = "Some 3"] h t0 t1 t2
  show ?thesis by simp
qed

text \<open>
  Claim C7. In every reachable state a non-empty token is the one in the header
  \<open>Bearer token\<close> and the one in the store, and with an empty or missing token there is
  no header and nothing in the store.
\<close>

theorem pairing_invariant:
  assumes "reachable w"
  shows "(\<forall>t. token w = Some t \<and> t \<noteq> [] \<longrightarrow>
            authorization w = Some (''Bearer '' @ t) \<and> stored w = Some t) \<and>
         (\<not> truthy (token w) \<longrightarrow> authorization w = None \<and> stored w = None)"
proof -
  have "paired w" using assms by (rule reachable_paired)
  then show ?thesis
    by (auto simp add: paired_def truthy_def split: option.splits if_splits)
qed

theorem pairing_invariant_witness:
  "reachable (snd (login ''/api'' ''a@b.com'' ''pw''
      (Resolved (Some \<lparr>p_user = Some (2::nat), p_token = Some ''xyz''\<rparr>))
      (AuthProvider ''/api'' None None (Resolved None)))) \<and>
   token (snd (login ''/api'' ''a@b.com'' ''pw''
      (Resolved (Some \<lparr>p_user = Some (2::nat), p_token = Some ''xyz''\<rparr>))
      (AuthProvider ''/api'' None None (Resolved None)))) = Some ''xyz'' \<and>
   authorization (snd (login ''/api'' ''a@b.com'' ''pw''
      (Resolved (Some \<lparr>p_user = Some (2::nat), p_token = Some ''xyz''\<rparr>))
      (AuthProvider ''/api'' None None (Resolved None))))
     = Some ''Bearer xyz'' \<and>
   stored (snd (login ''/api'' ''a@b.com'' ''pw''
      (Resolved (Some \<lparr>p_user = Some (2::nat), p_token = Some ''xyz''\<rparr>))
      (AuthProvider ''/api'' None None (Resolved None)))) = Some ''xyz''"
proof -
  have h: "reachable (snd (login ''/api'' ''a@b.com'' ''pw''
      (Resolved (Some \<lparr>p_user = Some (2::nat), p_token = Some ''xyz''\<rparr>))
      (AuthProvider ''/api'' None None (Resolved None))))"
    by (rule after_login) (rule mounted)
  have t: "token (snd (login ''/api'' ''a@b.com'' ''pw''
      (Resolved (Some \<lparr>p_user = Some (2::nat), p_token = Some ''xyz''\<rparr>))
      (AuthProvider ''/api'' None None (Resolved None)))) = Some ''xyz''"
    by (simp add: login_def rerender_cells cell_defs)
  from pairing_invariant [OF h] h t show ?thesis by simp
qed

section \<open>Properties of the API base URL\<close>

lemma takeWhile_slashes:
  "takeWhile (\<lambda>c. c = x) ys = replicate (length (takeWhile (\<lambda>c. c = x) ys)) x"
  by (induction ys) simp_all

lemma strip_trailing_slashes_decomp:
  "\<exists>n. s = strip_trailing_slashes s @ replicate n CHR ''/''"
proof -
  let ?P = "\<lambda>c. c = CHR ''/''"
  have "s = rev (takeWhile ?P (rev s) @ dropWhile ?P (rev s))"
    by (simp only: takeWhile_dropWhile_id rev_rev_ident)
  then have "s = strip_trailing_slashes s @ rev (takeWhile ?P (rev s))"
    by (simp only: rev_append strip_trailing_slashes_def)
  moreover have "rev (takeWhile ?P (rev s))
      = replicate (length (takeWhile ?P (rev s))) CHR ''/''"
    by (subst takeWhile_slashes) simp
  ultimately show ?thesis by metis
qed

lemma strip_trailing_slashes_no_slash:
  "\<not> endsWith (strip_trailing_slashes s) ''/''"
proof (cases "dropWhile (\<lambda>c. c = CHR ''/'') (rev s)")
  case Nil
  then have "strip_trailing_slashes s = []"
    by (simp only: strip_trailing_slashes_def rev.simps)
  then show ?thesis by (simp add: endsWith_def)
next
  case (Cons y ys)
  then have "y \<noteq> CHR ''/''"
    using hd_dropWhile [of "\<lambda>c. c = CHR ''/''" "rev s"] by simp
  moreover from Cons have "strip_trailing_slashes s = rev ys @ [y]"
    by (simp only: strip_trailing_slashes_def rev.simps)
  ultimately show ?thesis by (simp add: endsWith_def)
qed

lemma endsWith_append: "endsWith (a @ b) b"
  by (simp add: endsWith_def)

text \<open>
  Claim C10. With a non-empty \<^verbatim>\<open>VITE_API_URL\<close> the base is that value without the
  slashes that end it, followed by \<open>/api\<close> unless it ends in \<open>/api\<close> already; it does
  not depend on the origin and always ends in \<open>/api\<close>. With \<^verbatim>\<open>VITE_API_URL\<close> unset, or
  set to the empty string, the base is the origin followed by \<open>/api\<close>, or \<open>/api\<close>
  alone where there is no \<^verbatim>\<open>window.location\<close>.
\<close>

theorem API_URL_spec:
  "(v \<noteq> [] \<longrightarrow>
      (\<exists>n. v = strip_trailing_slashes v @ replicate n CHR ''/'') \<and>
      \<not> endsWith (strip_trailing_slashes v) ''/'' \<and>
      API_URL (Some v) origin =
        (if endsWith (strip_trailing_slashes v) ''/api'' then strip_trailing_slashes v
         else strip_trailing_slashes v @ ''/api'') \<and>
      endsWith (API_URL (Some v) origin) ''/api'') \<and>
   API_URL None (Some ori) = ori @ ''/api'' \<and>
   API_URL None None = ''/api'' \<and>
   API_URL (Some []) origin = API_URL None origin"
proof -
  have "endsWith (API_URL (Some v) origin) ''/api''" if "v \<noteq> []"
    using that endsWith_append [of "strip_trailing_slashes v" "''/api''"]
    by (simp add: API_URL_def Let_def)
  then show ?thesis
    using strip_trailing_slashes_decomp [of v] strip_trailing_slashes_no_slash [of v]
    by (simp add: API_URL_def same_origin_api_def Let_def)
qed

theorem API_URL_spec_witness:
  "''https://chat.example.com//'' \<noteq> [] \<and>
   strip_trailing_slashes ''https://chat.example.com//'' = ''https://chat.example.com'' \<and>
   API_URL (Some ''https://chat.example.com//'') None = ''https://chat.example.com/api'' \<and>
   endsWith (API_URL (Some ''https://chat.example.com//'') None) ''/api''"
proof -
  have s: "strip_trailing_slashes ''https://chat.example.com//'' = ''https://chat.example.com''"
    by (simp add: strip_trailing_slashes_def)
  have e: "\<not> endsWith ''https://chat.example.com'' ''/api''"
    by (simp add: endsWith_def)
  have e': "endsWith ''https://chat.example.com/api'' ''/api''"
    by (simp add: endsWith_def)
  from API_URL_spec [of "''https://chat.example.com//''" None] s e e' show ?thesis by simp
qed

end
